theory Spec2Isabelle
  imports Main
begin

section \<open>Platforms (platform.go)\<close>

text \<open>
  A shallow embedding of \<^verbatim>\<open>platform.go\<close>: the \<^verbatim>\<open>Platform\<close> struct, its three methods,
  the package-level snapshot variables \<^verbatim>\<open>Platforms_1_0\<close> ... \<^verbatim>\<open>Platforms_1_12\<close>, and
  \<^verbatim>\<open>SupportedPlatforms\<close>. Go strings are byte strings, so they are \<^typ>\<open>string\<close>.
\<close>

record Platform =
  OS :: string
  Arch :: string
  Default :: bool

text \<open>The positional composite literal \<^verbatim>\<open>{"linux", "amd64", true}\<close>.\<close>

abbreviation Plat :: "string \<Rightarrow> string \<Rightarrow> bool \<Rightarrow> Platform" where
  "Plat os arch d \<equiv> \<lparr>OS = os, Arch = arch, Default = d\<rparr>"

subsection \<open>String\<close>

text \<open>
  \<^verbatim>\<open>fmt.Sprintf\<close> restricted to what the program uses: string operands, the verb
  \<^verbatim>\<open>%s\<close>, the escape \<^verbatim>\<open>%%\<close> and literal bytes. A verb \<^verbatim>\<open>%s\<close> with no operand left
  prints \<^verbatim>\<open>%!s(MISSING)\<close>, as the package does.
\<close>

fun Sprintf :: "string \<Rightarrow> string list \<Rightarrow> string" where
  "Sprintf [] args = []"
| "Sprintf [c] args = [c]"
| "Sprintf (c # d # fs) args =
     (if c = CHR ''%'' \<and> d = CHR ''s'' then
        (case args of
           [] \<Rightarrow> ''%!s(MISSING)'' @ Sprintf fs []
         | a # as \<Rightarrow> a @ Sprintf fs as)
      else if c = CHR ''%'' \<and> d = CHR ''%'' then CHR ''%'' # Sprintf fs args
      else c # Sprintf (d # fs) args)"

definition String :: "Platform \<Rightarrow> string" where
  "String p = Sprintf ''%s/%s'' [OS p, Arch p]"

subsection \<open>OSUname and ArchUname\<close>

text \<open>
  Both methods index a map literal. Indexing a Go map with a key it does not hold yields
  the zero value of the element type, here the empty string; nothing is raised.
\<close>

definition index_map :: "(string \<times> string) list \<Rightarrow> string \<Rightarrow> string" where
  "index_map m k = (case map_of m k of None \<Rightarrow> [] | Some v \<Rightarrow> v)"

definition OSUname_table :: "(string \<times> string) list" where
  "OSUname_table =
    [(''darwin'', ''Darwin''),
     (''dragonfly'', ''DragonFly''),
     (''freebsd'', ''FreeBSD''),
     (''linux'', ''Linux''),
     (''netbsd'', ''NetBSD''),
     (''openbsd'', ''OpenBSD''),
     (''plan9'', ''Plan9''),
     (''solaris'', ''SunOS''),
     (''windows'', ''Windows'')]"

definition OSUname :: "Platform \<Rightarrow> string" where
  "OSUname p = index_map OSUname_table (OS p)"

definition ArchUname_table :: "(string \<times> string) list" where
  "ArchUname_table =
    [(''386'', ''i386''),
     (''amd64'', ''x86_64''),
     (''arm'', ''arm''),
     (''arm64'', ''aarch64''),
     (''ppc64'', ''ppc64''),
     (''ppc64le'', ''ppc64le'')]"

definition ArchUname :: "Platform \<Rightarrow> string" where
  "ArchUname p = index_map ArchUname_table (Arch p)"

subsection \<open>Slices and their backing arrays\<close>

text \<open>
  The snapshot variables are slices, and all but the first are built with the built-in
  \<^verbatim>\<open>append\<close>, which writes into the backing array of its first operand when that array
  has room. Two slices can therefore share storage, so slices are modelled with an
  explicit heap: a slice value is the address of its backing array, a length and a
  capacity (no slice of the program starts inside an array, so there is no offset), and
  the heap is the list of the backing arrays allocated so far, indexed by address. Slots
  of an array beyond what has been written hold the zero \<^verbatim>\<open>Platform\<close>.
\<close>

record slice =
  array :: nat
  len :: nat
  cap :: nat

type_synonym heap = "Platform list list"

definition zero_Platform :: Platform where
  "zero_Platform = Plat [] [] False"

text \<open>What a program that ranges over the slice sees: the first \<open>len\<close> slots.\<close>

definition elems :: "heap \<Rightarrow> slice \<Rightarrow> Platform list" where
  "elems h s = take (len s) (h ! array s)"

text \<open>
  A composite literal \<^verbatim>\<open>[]Platform{...}\<close> allocates an array that holds exactly its
  elements: length and capacity are both the number of elements.
\<close>

definition slice_literal :: "Platform list \<Rightarrow> heap \<Rightarrow> slice \<times> heap" where
  "slice_literal xs h = (\<lparr>array = length h, len = length xs, cap = length xs\<rparr>, h @ [xs])"

text \<open>
  \<^verbatim>\<open>append(s, xs...)\<close>. If the capacity of \<open>s\<close> fits the new elements they are written
  into the array of \<open>s\<close> behind its length, and the result shares that array; otherwise a
  new array is allocated, the elements of \<open>s\<close> are copied and the new ones follow. The
  capacity of a new array is chosen by the run-time system; it is the parameter \<open>grow\<close>,
  applied to the old capacity and the length needed.
\<close>

definition append_slice ::
  "(nat \<Rightarrow> nat \<Rightarrow> nat) \<Rightarrow> slice \<Rightarrow> Platform list \<Rightarrow> heap \<Rightarrow> slice \<times> heap" where
  "append_slice grow s xs h =
     (let n = len s + length xs; a = h ! array s in
      if n \<le> cap s then
        (s\<lparr>len := n\<rparr>, h[array s := take (len s) a @ xs @ drop n a])
      else
        (let c = grow (cap s) n in
         (\<lparr>array = length h, len = n, cap = c\<rparr>,
          h @ [take (len s) a @ xs @ replicate (c - n) zero_Platform])))"

paragraph \<open>The capacity of a grown slice\<close>

text \<open>
  Modelled from the spec: the growth of a slice is part of the Go run-time system
  (\<^verbatim>\<open>runtime.growslice\<close>), which is not under \<^verbatim>\<open>src/\<close>; the spec only says that the
  source extends "the prior snapshot's backing storage". The definitions follow the
  run-time system of the standard toolchain: a slice of fewer than 256 elements doubles
  its capacity, or takes the length needed when that is more than the double; a larger
  one grows by a quarter plus 192 until it fits; the byte size is then rounded up to an
  allocator size class and divided by the element size again. A \<^verbatim>\<open>Platform\<close> is two
  string headers and a bool, 40 bytes on a 64-bit target.
\<close>

function grow_large :: "nat \<Rightarrow> nat \<Rightarrow> nat" where
  "grow_large newcap newLen =
     (let c = newcap + (newcap + 3 * 256) div 4 in
      if newLen \<le> c then c else grow_large c newLen)"
  by pat_completeness auto
termination
  by (relation "measure (\<lambda>(newcap, newLen). newLen - newcap)") auto

definition nextslicecap :: "nat \<Rightarrow> nat \<Rightarrow> nat" where
  "nextslicecap newLen oldCap =
     (if 2 * oldCap < newLen then newLen
      else if oldCap < 256 then 2 * oldCap
      else grow_large oldCap newLen)"

definition size_classes :: "nat list" where
  "size_classes =
    [8, 16, 24, 32, 48, 64, 80, 96, 112, 128, 144, 160, 176, 192, 208, 224, 240, 256,
     288, 320, 352, 384, 416, 448, 480, 512, 576, 640, 704, 768, 896, 1024, 1152, 1280,
     1408, 1536, 1792, 2048, 2304, 2688, 3072, 3200, 3456, 4096, 4864, 5120, 5376, 6144,
     6528, 6784, 6912, 8192, 9472, 9728, 10240, 10880, 12288, 13568, 14336, 16384, 18432,
     19072, 20480, 21760, 24576, 27264, 28672, 32768]"

definition roundupsize :: "nat \<Rightarrow> nat" where
  "roundupsize n =
     (case filter (\<lambda>c. n \<le> c) size_classes of
        c # _ \<Rightarrow> c
      | [] \<Rightarrow> ((n + 8191) div 8192) * 8192)"

definition sizeof_Platform :: nat where
  "sizeof_Platform = 40"

definition growslice :: "nat \<Rightarrow> nat \<Rightarrow> nat" where
  "growslice oldCap newLen =
     roundupsize (sizeof_Platform * nextslicecap newLen oldCap) div sizeof_Platform"

subsection \<open>The snapshot variables\<close>

text \<open>The composite literals of the \<^verbatim>\<open>var\<close> block, in the order of the source.\<close>

definition lit_1_0 :: "Platform list" where
  "lit_1_0 =
    [Plat ''darwin'' ''386'' True,
     Plat ''darwin'' ''amd64'' True,
     Plat ''linux'' ''386'' True,
     Plat ''linux'' ''amd64'' True,
     Plat ''linux'' ''arm'' True,
     Plat ''freebsd'' ''386'' True,
     Plat ''freebsd'' ''amd64'' True,
     Plat ''openbsd'' ''386'' True,
     Plat ''openbsd'' ''amd64'' True,
     Plat ''windows'' ''386'' True,
     Plat ''windows'' ''amd64'' True]"

definition lit_1_1 :: "Platform list" where
  "lit_1_1 =
    [Plat ''freebsd'' ''arm'' True,
     Plat ''netbsd'' ''386'' True,
     Plat ''netbsd'' ''amd64'' True,
     Plat ''netbsd'' ''arm'' True,
     Plat ''plan9'' ''386'' False]"

definition lit_1_3 :: "Platform list" where
  "lit_1_3 =
    [Plat ''dragonfly'' ''386'' False,
     Plat ''dragonfly'' ''amd64'' False,
     Plat ''nacl'' ''amd64'' False,
     Plat ''nacl'' ''amd64p32'' False,
     Plat ''nacl'' ''arm'' False,
     Plat ''solaris'' ''amd64'' False]"

definition lit_1_4 :: "Platform list" where
  "lit_1_4 =
    [Plat ''android'' ''arm'' False,
     Plat ''plan9'' ''amd64'' False]"

definition lit_1_5 :: "Platform list" where
  "lit_1_5 =
    [Plat ''darwin'' ''arm'' False,
     Plat ''darwin'' ''arm64'' False,
     Plat ''linux'' ''arm64'' False,
     Plat ''linux'' ''ppc64'' False,
     Plat ''linux'' ''ppc64le'' False]"

definition lit_1_6 :: "Platform list" where
  "lit_1_6 =
    [Plat ''android'' ''386'' False,
     Plat ''linux'' ''mips64'' False,
     Plat ''linux'' ''mips64le'' False]"

definition lit_1_7 :: "Platform list" where
  "lit_1_7 =
    [Plat ''linux'' ''s390x'' True,
     Plat ''plan9'' ''arm'' False,
     Plat ''android'' ''386'' False,
     Plat ''linux'' ''mips64'' True,
     Plat ''linux'' ''mips64le'' True]"

definition lit_1_8 :: "Platform list" where
  "lit_1_8 =
    [Plat ''linux'' ''mips'' True,
     Plat ''linux'' ''mipsle'' True,
     Plat ''linux'' ''arm64'' True]"

definition lit_1_9 :: "Platform list" where
  "lit_1_9 =
    [Plat ''linux'' ''riscv64'' True,
     Plat ''freebsd'' ''riscv64'' True,
     Plat ''freebsd'' ''arm64'' True,
     Plat ''freebsd'' ''arm'' True,
     Plat ''openbsd'' ''arm64'' True,
     Plat ''openbsd'' ''arm'' True,
     Plat ''openbsd'' ''riscv64'' True,
     Plat ''windows'' ''arm'' True,
     Plat ''windows'' ''arm64'' True,
     Plat ''js'' ''wasm'' True]"

definition lit_1_11 :: "Platform list" where
  "lit_1_11 =
    [Plat ''js'' ''wasm'' True,
     Plat ''linux'' ''arm64'' True]"

definition lit_1_12 :: "Platform list" where
  "lit_1_12 =
    [Plat ''linux'' ''ppc64'' True,
     Plat ''windows'' ''arm'' True,
     Plat ''aix'' ''ppc64'' True]"

text \<open>
  The package-level variables. Go initialises them in the order of their declarations
  (each depends only on earlier ones), before \<^verbatim>\<open>main\<close> runs.
\<close>

record vars =
  var_1_0 :: slice
  var_1_1 :: slice
  var_1_3 :: slice
  var_1_4 :: slice
  var_1_5 :: slice
  var_1_6 :: slice
  var_1_7 :: slice
  var_1_8 :: slice
  var_1_9 :: slice
  var_1_10 :: slice
  var_1_11 :: slice
  var_1_12 :: slice
  var_Latest :: slice

definition init :: "(nat \<Rightarrow> nat \<Rightarrow> nat) \<Rightarrow> vars \<times> heap" where
  "init grow =
     (let (p0, h) = slice_literal lit_1_0 [];
          (p1, h) = append_slice grow p0 lit_1_1 h;
          (p3, h) = append_slice grow p1 lit_1_3 h;
          (p4, h) = append_slice grow p3 lit_1_4 h;
          (p5, h) = append_slice grow p4 lit_1_5 h;
          (p6, h) = append_slice grow p5 lit_1_6 h;
          (p7, h) = append_slice grow p5 lit_1_7 h;
          (p8, h) = append_slice grow p7 lit_1_8 h;
          (p9, h) = append_slice grow p8 lit_1_9 h;
          p10 = p9;
          (p11, h) = append_slice grow p10 lit_1_11 h;
          (p12, h) = append_slice grow p11 lit_1_12 h
      in (\<lparr>var_1_0 = p0, var_1_1 = p1, var_1_3 = p3, var_1_4 = p4, var_1_5 = p5,
           var_1_6 = p6, var_1_7 = p7, var_1_8 = p8, var_1_9 = p9, var_1_10 = p10,
           var_1_11 = p11, var_1_12 = p12, var_Latest = p12\<rparr>, h))"

text \<open>
  The state of the package once it is initialised, and what each variable then holds.
  The program never writes to a snapshot afterwards.
\<close>

definition package :: "vars \<times> heap" where
  "package = init growslice"

definition deref :: "(vars \<Rightarrow> slice) \<Rightarrow> Platform list" where
  "deref var = elems (snd package) (var (fst package))"

definition Platforms_1_0 :: "Platform list" where "Platforms_1_0 = deref var_1_0"
definition Platforms_1_1 :: "Platform list" where "Platforms_1_1 = deref var_1_1"
definition Platforms_1_3 :: "Platform list" where "Platforms_1_3 = deref var_1_3"
definition Platforms_1_4 :: "Platform list" where "Platforms_1_4 = deref var_1_4"
definition Platforms_1_5 :: "Platform list" where "Platforms_1_5 = deref var_1_5"
definition Platforms_1_6 :: "Platform list" where "Platforms_1_6 = deref var_1_6"
definition Platforms_1_7 :: "Platform list" where "Platforms_1_7 = deref var_1_7"
definition Platforms_1_8 :: "Platform list" where "Platforms_1_8 = deref var_1_8"
definition Platforms_1_9 :: "Platform list" where "Platforms_1_9 = deref var_1_9"
definition Platforms_1_10 :: "Platform list" where "Platforms_1_10 = deref var_1_10"
definition Platforms_1_11 :: "Platform list" where "Platforms_1_11 = deref var_1_11"
definition Platforms_1_12 :: "Platform list" where "Platforms_1_12 = deref var_1_12"
definition PlatformsLatest :: "Platform list" where "PlatformsLatest = deref var_Latest"

subsection \<open>Versions and constraints\<close>

text \<open>
  Modelled from the spec: \<^verbatim>\<open>SupportedPlatforms\<close> parses and compares versions with the
  imported package \<^verbatim>\<open>github.com/hashicorp/go-version\<close>, which is not under \<^verbatim>\<open>src/\<close>.
  The spec calls it "a semantic/relaxed version parser" and reads the constraints of the
  table as inclusive lower and exclusive upper bounds. The definitions of this subsection
  follow release 1.0.0 of the package: \<^verbatim>\<open>NewVersion\<close>, \<^verbatim>\<open>Compare\<close>,
  \<^verbatim>\<open>NewConstraint\<close> and \<^verbatim>\<open>Check\<close>. Of the struct \<^verbatim>\<open>Version\<close> the field
  \<^verbatim>\<open>original\<close>, which only \<^verbatim>\<open>String\<close> reads, is left out.
\<close>

record Version =
  metadata :: string
  pre :: string
  segments :: "int list"
  si :: nat

definition isDigit :: "char \<Rightarrow> bool" where
  "isDigit c = (c \<in> set ''0123456789'')"

definition isLetter :: "char \<Rightarrow> bool" where
  "isLetter c = (c \<in> set ''abcdefghijklmnopqrstuvwxyzABCDEFGHIJKLMNOPQRSTUVWXYZ'')"

text \<open>The character class \<^verbatim>\<open>[0-9A-Za-z\-~]\<close> of the version pattern.\<close>

definition isIdent :: "char \<Rightarrow> bool" where
  "isIdent c = (isDigit c \<or> isLetter c \<or> c = CHR ''-'' \<or> c = CHR ''~'')"

text \<open>The class \<^verbatim>\<open>\s\<close> of Go regular expressions: tab, newline, form feed, return, space.\<close>

definition isSpace :: "char \<Rightarrow> bool" where
  "isSpace c = (c \<in> set [CHR 0x09, CHR 0x0A, CHR 0x0C, CHR 0x0D, CHR '' ''])"

text \<open>\<^verbatim>\<open>strings.Split\<close> with a separator of one byte: the result is never empty.\<close>

fun Split :: "char \<Rightarrow> string \<Rightarrow> string list" where
  "Split sep [] = [[]]"
| "Split sep (c # cs) =
     (if c = sep then [] # Split sep cs
      else (case Split sep cs of [] \<Rightarrow> [[c]] | w # ws \<Rightarrow> (c # w) # ws))"

text \<open>
  \<^verbatim>\<open>strconv.ParseInt(s, 10, 64)\<close>, as the value and whether the error is nil: an optional
  sign and at least one decimal digit. A syntax error gives the value 0; a value outside
  the 64-bit range is an error too and gives the nearest bound.
\<close>

definition digitVal :: "char \<Rightarrow> int" where
  "digitVal c = int (of_char c) - 48"

definition ParseInt :: "string \<Rightarrow> int \<times> bool" where
  "ParseInt s =
     (let neg = (s \<noteq> [] \<and> hd s = CHR ''-'');
          ds = (if s \<noteq> [] \<and> (hd s = CHR ''-'' \<or> hd s = CHR ''+'') then tl s else s)
      in if ds = [] \<or> \<not> list_all isDigit ds then (0, False)
         else
           (let n = foldl (\<lambda>a c. 10 * a + digitVal c) 0 ds in
            if neg then (if 2 ^ 63 < n then (- (2 ^ 63), False) else (- n, True))
            else (if 2 ^ 63 - 1 < n then (2 ^ 63 - 1, False) else (n, True))))"

text \<open>
  The anchored version pattern
  \<^verbatim>\<open>v?([0-9]+(\.[0-9]+)*?)(-([0-9]+[0-9A-Za-z\-~]*(\.[0-9A-Za-z\-~]+)*)|(-?([A-Za-z\-~]+[0-9A-Za-z\-~]*(\.[0-9A-Za-z\-~]+)*)))?(\+([0-9A-Za-z\-~]+(\.[0-9A-Za-z\-~]+)*))??\<close>
  and the groups 1, 4, 7 and 10 of its match. After the optional \<^verbatim>\<open>v\<close>, group 1 is the
  longest prefix of digits and dots, which must be dot-separated numbers; what follows up
  to the first \<^verbatim>\<open>+\<close> is the pre-release part; the rest is \<^verbatim>\<open>+\<close> and the metadata. A
  pre-release or metadata body is a dot-separated sequence of non-empty words over
  \<^verbatim>\<open>[0-9A-Za-z\-~]\<close>. The first alternative of the pre-release part (group 4) is a dash
  and a body that starts with a digit; the second (group 7) is a body that starts with a
  letter, dash or tilde, with an optional dash before it that the pattern takes when the
  rest still matches.
\<close>

definition dotted :: "string \<Rightarrow> bool" where
  "dotted s = list_all (\<lambda>w. w \<noteq> [] \<and> list_all isIdent w) (Split CHR ''.'' s)"

definition prePart :: "string \<Rightarrow> (string \<times> string) option" where
  "prePart p =
     (case p of
        [] \<Rightarrow> Some ([], [])
      | c # b \<Rightarrow>
          if c = CHR ''-'' \<and> dotted b \<and> isDigit (hd b) then Some (b, [])
          else if c = CHR ''-'' \<and> dotted b then Some ([], b)
          else if dotted p \<and> \<not> isDigit c then Some ([], p)
          else None)"

definition versionRegexp :: "string \<Rightarrow> (string \<times> string \<times> string \<times> string) option" where
  "versionRegexp v =
     (let s = (if v \<noteq> [] \<and> hd v = CHR ''v'' then tl v else v);
          numeric = (\<lambda>c. isDigit c \<or> c = CHR ''.'');
          m1 = takeWhile numeric s;
          rest = dropWhile numeric s;
          p = takeWhile (\<lambda>c. c \<noteq> CHR ''+'') rest;
          m = dropWhile (\<lambda>c. c \<noteq> CHR ''+'') rest
      in if \<not> list_all (\<lambda>w. w \<noteq> []) (Split CHR ''.'' m1) then None
         else
           (case prePart p of
              None \<Rightarrow> None
            | Some (m4, m7) \<Rightarrow>
                if m = [] then Some (m1, m4, m7, [])
                else if dotted (tl m) then Some (m1, m4, m7, tl m)
                else None))"

text \<open>
  \<^verbatim>\<open>NewVersion\<close>: match the pattern, parse each segment as a 64-bit integer, pad the
  segments with zeros to three. \<open>None\<close> stands for the error result.
\<close>

definition NewVersion :: "string \<Rightarrow> Version option" where
  "NewVersion v =
     (case versionRegexp v of
        None \<Rightarrow> None
      | Some (m1, m4, m7, m10) \<Rightarrow>
          (let parsed = map ParseInt (Split CHR ''.'' m1) in
           if \<not> list_all snd parsed then None
           else Some \<lparr>metadata = m10,
                      pre = (if m7 = [] then m4 else m7),
                      segments = map fst parsed @ replicate (3 - length parsed) 0,
                      si = length parsed\<rparr>))"

text \<open>Byte-wise comparison of Go strings.\<close>

fun string_less :: "string \<Rightarrow> string \<Rightarrow> bool" where
  "string_less [] [] = False"
| "string_less [] (y # ys) = True"
| "string_less (x # xs) [] = False"
| "string_less (x # xs) (y # ys) =
     ((of_char x :: nat) < of_char y \<or> (x = y \<and> string_less xs ys))"

definition comparePart :: "string \<Rightarrow> string \<Rightarrow> int" where
  "comparePart preSelf preOther =
     (if preSelf = preOther then 0
      else
        (let (selfInt, selfNumeric) = ParseInt preSelf;
             (otherInt, otherNumeric) = ParseInt preOther
         in if preSelf = [] then (if otherNumeric then - 1 else 1)
            else if preOther = [] then (if selfNumeric then 1 else - 1)
            else if selfNumeric \<and> \<not> otherNumeric then - 1
            else if \<not> selfNumeric \<and> otherNumeric then 1
            else if \<not> selfNumeric \<and> \<not> otherNumeric \<and> string_less preOther preSelf then 1
            else if otherInt < selfInt then 1
            else - 1))"

text \<open>The loop of \<^verbatim>\<open>comparePrereleases\<close> over the parts, a missing part being empty.\<close>

fun compareParts :: "string list \<Rightarrow> string list \<Rightarrow> int" where
  "compareParts [] [] = 0"
| "compareParts [] (y # ys) =
     (if comparePart [] y \<noteq> 0 then comparePart [] y else compareParts [] ys)"
| "compareParts (x # xs) [] =
     (if comparePart x [] \<noteq> 0 then comparePart x [] else compareParts xs [])"
| "compareParts (x # xs) (y # ys) =
     (if comparePart x y \<noteq> 0 then comparePart x y else compareParts xs ys)"

definition comparePrereleases :: "string \<Rightarrow> string \<Rightarrow> int" where
  "comparePrereleases v other =
     (if v = other then 0
      else compareParts (Split CHR ''.'' v) (Split CHR ''.'' other))"

definition allZero :: "int list \<Rightarrow> bool" where
  "allZero segs = list_all (\<lambda>s. s = 0) segs"

text \<open>
  The segment loop of \<^verbatim>\<open>Compare\<close>: when one list ends first, the result depends on
  whether the rest of the other is all zeros.
\<close>

fun compareSegments :: "int list \<Rightarrow> int list \<Rightarrow> int" where
  "compareSegments [] [] = 0"
| "compareSegments [] (r # rs) = (if allZero (r # rs) then 0 else - 1)"
| "compareSegments (l # ls) [] = (if allZero (l # ls) then 0 else 1)"
| "compareSegments (l # ls) (r # rs) =
     (if l = r then compareSegments ls rs else if l < r then - 1 else 1)"

text \<open>
  \<^verbatim>\<open>Compare\<close> returns -1, 0 or 1. Its first test, equality of the two rendered versions,
  returns 0 in a case where the code below does too, so it is not repeated here.
\<close>

definition Compare :: "Version \<Rightarrow> Version \<Rightarrow> int" where
  "Compare v other =
     (if segments v = segments other then
        (if pre v = [] \<and> pre other = [] then 0
         else if pre v = [] then 1
         else if pre other = [] then - 1
         else comparePrereleases (pre v) (pre other))
      else compareSegments (segments v) (segments other))"

datatype Operator =
  Equal | NotEqual | GreaterThan | LessThan | GreaterThanEqual | LessThanEqual | Pessimistic

datatype Constraint = Constraint Operator Version

definition constraintPessimistic :: "Version \<Rightarrow> Version \<Rightarrow> bool" where
  "constraintPessimistic v c =
     (let cs = length (segments c) in
      if Compare v c < 0 then False
      else if length (segments v) < cs then False
      else if take (si c - 1) (segments v) \<noteq> take (si c - 1) (segments c) then False
      else if segments v ! (cs - 1) < segments c ! (cs - 1) then False
      else True)"

fun constraint_check :: "Constraint \<Rightarrow> Version \<Rightarrow> bool" where
  "constraint_check (Constraint Equal c) v = (Compare v c = 0)"
| "constraint_check (Constraint NotEqual c) v = (Compare v c \<noteq> 0)"
| "constraint_check (Constraint GreaterThan c) v = (Compare v c = 1)"
| "constraint_check (Constraint LessThan c) v = (Compare v c = - 1)"
| "constraint_check (Constraint GreaterThanEqual c) v = (0 \<le> Compare v c)"
| "constraint_check (Constraint LessThanEqual c) v = (Compare v c \<le> 0)"
| "constraint_check (Constraint Pessimistic c) v = constraintPessimistic v c"

definition constraintOperators :: "(string \<times> Operator) list" where
  "constraintOperators =
    [([], Equal),
     (''='', Equal),
     (''!='', NotEqual),
     (''>'', GreaterThan),
     (''<'', LessThan),
     (''>='', GreaterThanEqual),
     (''<='', LessThanEqual),
     (''~>'', Pessimistic)]"

text \<open>
  \<^verbatim>\<open>parseSingle\<close> matches \<^verbatim>\<open>^\s*(op)\s*(version)\s*$\<close>: the operator is the run of
  operator characters after the leading space and must be a key of \<^verbatim>\<open>constraintOperators\<close>.
\<close>

definition parseSingle :: "string \<Rightarrow> Constraint option" where
  "parseSingle v =
     (let isOp = (\<lambda>c. c \<in> set ''=!<>~'');
          t = dropWhile isSpace v;
          r = dropWhile isSpace (dropWhile isOp t);
          vs = rev (dropWhile isSpace (rev r))
      in case map_of constraintOperators (takeWhile isOp t) of
           None \<Rightarrow> None
         | Some f \<Rightarrow>
             (case NewVersion vs of
                None \<Rightarrow> None
              | Some c \<Rightarrow> Some (Constraint f c)))"

fun parseAll :: "string list \<Rightarrow> Constraint list option" where
  "parseAll [] = Some []"
| "parseAll (single # vs) =
     (case parseSingle single of
        None \<Rightarrow> None
      | Some c \<Rightarrow> (case parseAll vs of None \<Rightarrow> None | Some cs \<Rightarrow> Some (c # cs)))"

definition NewConstraint :: "string \<Rightarrow> Constraint list option" where
  "NewConstraint v = parseAll (Split CHR '','' v)"

text \<open>\<^verbatim>\<open>Constraints.Check\<close>: the version satisfies every constraint.\<close>

definition Check :: "Constraint list \<Rightarrow> Version \<Rightarrow> bool" where
  "Check cs v = list_all (\<lambda>c. constraint_check c v) cs"

subsection \<open>SupportedPlatforms\<close>

text \<open>
  The function returns a slice; the model returns what the slice holds. A malformed
  constraint makes the function panic, which is the left summand. The diagnostic that
  \<^verbatim>\<open>log.Printf\<close> writes for an unparsable version is not modelled.
\<close>

datatype failure = Panic

definition HasPrefix :: "string \<Rightarrow> string \<Rightarrow> bool" where
  "HasPrefix s prefix = (length prefix \<le> length s \<and> take (length prefix) s = prefix)"

definition platforms :: "(string \<times> Platform list) list" where
  "platforms =
    [(''<= 1.0'', Platforms_1_0),
     (''>= 1.1, < 1.3'', Platforms_1_1),
     (''>= 1.3, < 1.4'', Platforms_1_3),
     (''>= 1.4, < 1.5'', Platforms_1_4),
     (''>= 1.5, < 1.6'', Platforms_1_5),
     (''>= 1.6, < 1.7'', Platforms_1_6),
     (''>= 1.7, < 1.8'', Platforms_1_7),
     (''>= 1.8, < 1.9'', Platforms_1_8),
     (''>= 1.9, < 1.10'', Platforms_1_9),
     (''>=1.10, < 1.11'', Platforms_1_10),
     (''>=1.11, < 1.12'', Platforms_1_11),
     (''>=1.12, < 1.13'', Platforms_1_12)]"

text \<open>The \<^verbatim>\<open>for\<close> loop over the table and the \<^verbatim>\<open>return\<close> after it.\<close>

fun range_loop :: "(string \<times> Platform list) list \<Rightarrow> Version \<Rightarrow> failure + Platform list" where
  "range_loop [] current = Inr Platforms_1_12"
| "range_loop ((constraint, plat) # ps) current =
     (case NewConstraint constraint of
        None \<Rightarrow> Inl Panic
      | Some constraints \<Rightarrow>
          if Check constraints current then Inr plat else range_loop ps current)"

definition SupportedPlatforms :: "string \<Rightarrow> failure + Platform list" where
  "SupportedPlatforms v =
     (if \<not> HasPrefix v ''go'' then Inr PlatformsLatest
      else
        (case NewVersion (drop 2 v) of
           None \<Rightarrow> Inr PlatformsLatest
         | Some current \<Rightarrow> range_loop platforms current))"

text \<open>
  Whether the loop returns at an entry: its constraint parses and the version satisfies it.
\<close>

definition entry_matches :: "Version \<Rightarrow> string \<times> Platform list \<Rightarrow> bool" where
  "entry_matches current p =
     (case NewConstraint (fst p) of None \<Rightarrow> False | Some constraints \<Rightarrow> Check constraints current)"

text \<open>The version 1.\<open>k\<close>, as \<^verbatim>\<open>NewVersion\<close> returns it for the bounds of the table.\<close>

definition minor :: "int \<Rightarrow> Version" where
  "minor k = \<lparr>metadata = [], pre = [], segments = [1, k, 0], si = 2\<rparr>"

text \<open>The pair that the spec says identifies a platform within a snapshot.\<close>

definition os_arch :: "Platform \<Rightarrow> string \<times> string" where
  "os_arch p = (OS p, Arch p)"

section \<open>Properties\<close>

lemma index_map_absent: "k \<notin> fst ` set m \<Longrightarrow> index_map m k = []"
  using map_of_eq_None_iff [of m k] by (simp add: index_map_def)

text \<open>
  C8. \<^verbatim>\<open>OSUname\<close> maps "solaris" to "SunOS" and "android" to the empty string;
  \<^verbatim>\<open>ArchUname\<close> maps "arm64" to "aarch64" and "mips" to the empty string; an OS or Arch
  identifier that is not a key of the lookup table gives the empty string. The functions
  are total: there is no error branch.
\<close>

theorem uname_lookup:
  "OSUname (Plat ''solaris'' a d) = ''SunOS''
   \<and> OSUname (Plat ''android'' a d) = []
   \<and> ArchUname (Plat os ''arm64'' d) = ''aarch64''
   \<and> ArchUname (Plat os ''mips'' d) = []
   \<and> (OS p \<notin> fst ` set OSUname_table \<longrightarrow> OSUname p = [])
   \<and> (Arch p \<notin> fst ` set ArchUname_table \<longrightarrow> ArchUname p = [])"
  by (simp add: OSUname_def ArchUname_def index_map_absent)
    (simp add: index_map_def OSUname_table_def ArchUname_table_def)

theorem uname_lookup_witness:
  "OS (Plat ''zos'' ''s390x'' False) \<notin> fst ` set OSUname_table
   \<and> Arch (Plat ''zos'' ''s390x'' False) \<notin> fst ` set ArchUname_table
   \<and> OSUname (Plat ''zos'' ''s390x'' False) = []
   \<and> ArchUname (Plat ''zos'' ''s390x'' False) = []"
  using uname_lookup [of "[]" False "[]" "Plat ''zos'' ''s390x'' False"]
  by (simp add: OSUname_table_def ArchUname_table_def)

text \<open>
  C9. For every platform \<open>p\<close>, \<^verbatim>\<open>String\<close> returns \<open>OS p\<close>, a slash and \<open>Arch p\<close>; the
  platform linux/amd64 is rendered as "linux/amd64".
\<close>

theorem String_render:
  "String p = OS p @ ''/'' @ Arch p
   \<and> String (Plat ''linux'' ''amd64'' True) = ''linux/amd64''"
  by (simp add: String_def)

end
